theory Spec2Isabelle
  imports Main "HOL-Library.Sublist"
begin

section \<open>The message model (class NtfyMessage)\<close>

text \<open>
  A decoded JSON object is a Python dict. The model keeps the eleven keys the program
  reads, each either absent (\<open>None\<close>) or holding a value of the type the ntfy protocol
  gives it: strings for the texts, an integer for \<open>time\<close> and \<open>priority\<close>, a list of
  strings for \<open>tags\<close>, a string-to-string table for \<open>attachment\<close>. Keys the program
  never reads are left out. A string is the list of its characters as Python counts
  them, so that \<open>s[:n]\<close> is \<open>take n s\<close>.
\<close>

record json_dict =
  k_id :: "string option"
  k_time :: "int option"
  k_event :: "string option"
  k_topic :: "string option"
  k_message :: "string option"
  k_title :: "string option"
  k_tags :: "string list option"
  k_priority :: "int option"
  k_click :: "string option"
  k_attachment :: "(string \<times> string) list option"
  k_server :: "string option"

text \<open>The attributes of an NtfyMessage object; \<open>id_m\<close> is the attribute \<open>id\<close>.\<close>

record ntfy_message =
  id_m :: string
  time :: int
  event :: string
  topic :: string
  message :: string
  title :: string
  tags :: "string list"
  priority :: int
  click :: string
  attachment :: "(string \<times> string) list"
  server :: string

text \<open>\<open>data.get(key, default)\<close>\<close>

definition dict_get :: "'a option \<Rightarrow> 'a \<Rightarrow> 'a" where
  "dict_get entry dflt = (case entry of None \<Rightarrow> dflt | Some v \<Rightarrow> v)"

text \<open>\<open>NtfyMessage.__init__\<close>\<close>

definition NtfyMessage :: "json_dict \<Rightarrow> ntfy_message" where
  "NtfyMessage data =
     \<lparr> id_m = dict_get (k_id data) [],
       time = dict_get (k_time data) 0,
       event = dict_get (k_event data) [],
       topic = dict_get (k_topic data) [],
       message = dict_get (k_message data) [],
       title = dict_get (k_title data) [],
       tags = dict_get (k_tags data) [],
       priority = dict_get (k_priority data) 3,
       click = dict_get (k_click data) [],
       attachment = dict_get (k_attachment data) [],
       server = dict_get (k_server data) [] \<rparr>"

text \<open>\<open>NtfyMessage.to_dict\<close>: every key is present in the result.\<close>

definition to_dict :: "ntfy_message \<Rightarrow> json_dict" where
  "to_dict m =
     \<lparr> k_id = Some (id_m m),
       k_time = Some (time m),
       k_event = Some (event m),
       k_topic = Some (topic m),
       k_message = Some (message m),
       k_title = Some (title m),
       k_tags = Some (tags m),
       k_priority = Some (priority m),
       k_click = Some (click m),
       k_attachment = Some (attachment m),
       k_server = Some (server m) \<rparr>"

text \<open>\<open>NtfyMessage.get_priority_text\<close>\<close>

definition get_priority_text :: "ntfy_message \<Rightarrow> string" where
  "get_priority_text m =
     (if priority m = 1 then ''Min''
      else if priority m = 2 then ''Low''
      else if priority m = 3 then ''Default''
      else if priority m = 4 then ''High''
      else if priority m = 5 then ''Max''
      else ''Unknown'')"

section \<open>The message panel (class MessagePanel)\<close>

text \<open>
  The panel owns the dedup index \<open>message_ids\<close> and the history \<open>messages\<close>. Its list
  control and detail text only mirror \<open>messages\<close> on screen and are not modelled.
\<close>

record message_panel =
  message_ids :: "string set"
  messages :: "ntfy_message list"

text \<open>\<open>MessagePanel.__init__\<close>\<close>

definition init_panel :: message_panel where
  "init_panel = \<lparr> message_ids = {}, messages = [] \<rparr>"

text \<open>
  The loop of \<open>add_message\<close> that looks for the insertion index. The arguments are the
  new message's time, the entries still to visit, the loop index \<open>i\<close> and the current
  \<open>insert_index\<close>; the first equation of the \<open>if\<close> is the \<open>break\<close>.
\<close>

fun find_insert_index :: "int \<Rightarrow> ntfy_message list \<Rightarrow> nat \<Rightarrow> nat \<Rightarrow> nat" where
  "find_insert_index t [] i insert_index = insert_index"
| "find_insert_index t (existing_msg # rest) i insert_index =
     (if t > time existing_msg then insert_index
      else find_insert_index t rest (i + 1) (i + 1))"

text \<open>Python's \<open>list.insert(index, x)\<close> for an index from 0; beyond the end it appends.\<close>

definition list_insert :: "nat \<Rightarrow> 'a \<Rightarrow> 'a list \<Rightarrow> 'a list" where
  "list_insert n x xs = take n xs @ x # drop n xs"

text \<open>\<open>MessagePanel.add_message\<close>: the returned flag and the panel afterwards.\<close>

definition add_message :: "ntfy_message \<Rightarrow> message_panel \<Rightarrow> bool \<times> message_panel" where
  "add_message m p =
     (if event m = ''message'' \<and> id_m m \<noteq> [] then
        (if id_m m \<in> message_ids p then (False, p)
         else (True,
               p\<lparr> message_ids := insert (id_m m) (message_ids p),
                  messages := list_insert (find_insert_index (time m) (messages p) 0 0) m
                                (messages p) \<rparr>))
      else (False, p))"

text \<open>\<open>MessagePanel.clear_messages\<close>\<close>

definition clear_messages :: "message_panel \<Rightarrow> message_panel" where
  "clear_messages p = p\<lparr> messages := [], message_ids := {} \<rparr>"

text \<open>
  The conversion loop of \<open>load_messages\<close>. \<open>data.get('id')\<close> is \<open>None\<close> for a dict
  without the key, and \<open>None\<close> is never a member of the index, which holds strings.
\<close>

fun load_loop ::
  "json_dict list \<Rightarrow> ntfy_message list \<Rightarrow> string set \<Rightarrow> ntfy_message list \<times> string set" where
  "load_loop [] loaded_messages ids = (loaded_messages, ids)"
| "load_loop (data # rest) loaded_messages ids =
     (if (case k_id data of None \<Rightarrow> True | Some i \<Rightarrow> i \<notin> ids) then
        load_loop rest (loaded_messages @ [NtfyMessage data])
          (insert (id_m (NtfyMessage data)) ids)
      else load_loop rest loaded_messages ids)"

text \<open>
  \<open>sorted(loaded_messages, key=lambda m: m.time, reverse=True)\<close>: a stable sort into
  descending time, which is the stable ascending sort on the negated key.
\<close>

definition sorted_reverse :: "ntfy_message list \<Rightarrow> ntfy_message list" where
  "sorted_reverse ms = sort_key (\<lambda>m. - time m) ms"

text \<open>\<open>MessagePanel.load_messages\<close>\<close>

definition load_messages :: "json_dict list \<Rightarrow> message_panel \<Rightarrow> message_panel" where
  "load_messages messages_data p =
     (case load_loop messages_data [] (message_ids (clear_messages p)) of
        (loaded_messages, ids) \<Rightarrow>
          (clear_messages p)\<lparr> message_ids := ids, messages := sorted_reverse loaded_messages \<rparr>)"

text \<open>Admitting a sequence of messages one after the other.\<close>

fun admit_all :: "ntfy_message list \<Rightarrow> message_panel \<Rightarrow> message_panel" where
  "admit_all [] p = p"
| "admit_all (m # ms) p = admit_all ms (snd (add_message m p))"

text \<open>The history is in descending order of time (equal times allowed).\<close>

definition descending :: "ntfy_message list \<Rightarrow> bool" where
  "descending ms = sorted_wrt (\<lambda>a b. time a \<ge> time b) ms"

text \<open>The history is in strictly descending order of time.\<close>

definition strictly_descending :: "ntfy_message list \<Rightarrow> bool" where
  "strictly_descending ms = sorted_wrt (\<lambda>a b. time a > time b) ms"

section \<open>The subscription registry (class SubscriptionPanel)\<close>

text \<open>
  The status of a subscription is one of seven texts shown in the list: not connected
  (the text a new entry gets), connecting, connected, reconnecting with the attempt
  number (after the stream ended), reconnecting after an error with the attempt number,
  connection error, and disconnected.
\<close>

datatype status =
  NotConnected | Connecting | Connected | Reconnecting nat | ErrorReconnecting nat
  | ConnectionError | Disconnected

text \<open>One entry of \<open>subscriptions\<close>: a dict with the keys server, topic, status, message_count.\<close>

record subscription =
  sub_server :: string
  sub_topic :: string
  sub_status :: status
  message_count :: nat

definition sub_key :: "subscription \<Rightarrow> string \<times> string" where
  "sub_key s = (sub_server s, sub_topic s)"

text \<open>\<open>server_url.startswith(('http://', 'https://'))\<close>\<close>

definition startswith_scheme :: "string \<Rightarrow> bool" where
  "startswith_scheme server_url = (prefix ''http://'' server_url \<or> prefix ''https://'' server_url)"

text \<open>\<open>server_url.rstrip('/')\<close>\<close>

definition rstrip_slash :: "string \<Rightarrow> string" where
  "rstrip_slash s = rev (dropWhile (\<lambda>c. c = CHR ''/'') (rev s))"

text \<open>The two normalisation steps of \<open>add_subscription\<close>.\<close>

definition normalize_url :: "string \<Rightarrow> string" where
  "normalize_url server_url =
     rstrip_slash (if \<not> startswith_scheme server_url then ''https://'' @ server_url
                   else server_url)"

text \<open>\<open>SubscriptionPanel.add_subscription\<close>: the returned flag and the registry afterwards.\<close>

definition add_subscription ::
  "string \<Rightarrow> string \<Rightarrow> subscription list \<Rightarrow> bool \<times> subscription list" where
  "add_subscription server_url topic_name subs =
     (if server_url = [] \<or> topic_name = [] then (False, subs)
      else if list_ex (\<lambda>s. sub_server s = normalize_url server_url \<and> sub_topic s = topic_name) subs
        then (False, subs)
      else (True,
            subs @ [\<lparr> sub_server = normalize_url server_url, sub_topic = topic_name,
                      sub_status = NotConnected, message_count = 0 \<rparr>]))"

text \<open>\<open>update_subscription_status\<close>: the first matching entry is updated (\<open>break\<close>).\<close>

fun update_subscription_status ::
  "string \<Rightarrow> string \<Rightarrow> status \<Rightarrow> subscription list \<Rightarrow> subscription list" where
  "update_subscription_status server_url topic_name st [] = []"
| "update_subscription_status server_url topic_name st (sub # rest) =
     (if sub_server sub = server_url \<and> sub_topic sub = topic_name
      then sub\<lparr>sub_status := st\<rparr> # rest
      else sub # update_subscription_status server_url topic_name st rest)"

text \<open>\<open>update_subscription_message_count\<close>\<close>

fun update_subscription_message_count ::
  "string \<Rightarrow> string \<Rightarrow> nat \<Rightarrow> subscription list \<Rightarrow> subscription list" where
  "update_subscription_message_count server_url topic_name n [] = []"
| "update_subscription_message_count server_url topic_name n (sub # rest) =
     (if sub_server sub = server_url \<and> sub_topic sub = topic_name
      then sub\<lparr>message_count := n\<rparr> # rest
      else sub # update_subscription_message_count server_url topic_name n rest)"

section \<open>The main window (class NtfyGUI), as seen by the GUI thread\<close>

text \<open>
  The texts the program puts into the status bar: the start-up text, the number of
  subscriptions listened to, listening stopped, a new live message (topic and the title
  or the first 30 characters of the body), the history fetch running (number of
  subscriptions), the history fetch finished (the count and the since window), and
  messages cleared.
\<close>

datatype status_text =
  Ready | Listening nat | Stopped | NewMessage string string | Fetching nat
  | FetchDone nat string | Cleared

text \<open>
  The state of the window that the calls below read and write. \<open>tray\<close> is the list
  of balloons shown by \<open>tray_icon.show_notification\<close>, oldest first: the topic that
  follows the fixed title prefix, and the notification text.
\<close>

record ntfy_gui =
  panel :: message_panel
  subscriptions :: "subscription list"
  sub_message_counts :: "string \<times> string \<rightharpoonup> nat"
  status_bar :: status_text
  tray :: "(string \<times> string) list"
  connected_state :: bool

text \<open>\<open>message.title or message.message[:n]\<close>\<close>

definition title_or_message :: "nat \<Rightarrow> ntfy_message \<Rightarrow> string" where
  "title_or_message n m = (if title m \<noteq> [] then title m else take n (message m))"

text \<open>\<open>NtfyGUI.add_message_and_notify\<close>\<close>

definition add_message_and_notify :: "ntfy_message \<Rightarrow> bool \<Rightarrow> ntfy_gui \<Rightarrow> ntfy_gui" where
  "add_message_and_notify m is_live_message g =
     (case add_message m (panel g) of
        (is_newly_added, p) \<Rightarrow>
          if is_newly_added then
            (let n = (case sub_message_counts g (server m, topic m) of
                        None \<Rightarrow> 0 | Some c \<Rightarrow> c) + 1;
                 g1 = g\<lparr> panel := p,
                         sub_message_counts := (sub_message_counts g)((server m, topic m) \<mapsto> n),
                         subscriptions :=
                           update_subscription_message_count (server m) (topic m) n
                             (subscriptions g) \<rparr>
             in if is_live_message then
                  g1\<lparr> status_bar := NewMessage (topic m) (title_or_message 30 m),
                      tray := tray g1 @ [(topic m, title_or_message 50 m)] \<rparr>
                else g1)
          else g\<lparr> panel := p \<rparr>)"

text \<open>
  \<open>ControlPanel.on_clear_click\<close>: the panel is cleared and every subscription's
  count is set to 0, in the table and in the list.
\<close>

fun reset_counts :: "subscription list \<Rightarrow> ntfy_gui \<Rightarrow> ntfy_gui" where
  "reset_counts [] g = g"
| "reset_counts (sub # rest) g =
     reset_counts rest
       (g\<lparr> sub_message_counts := (sub_message_counts g)((sub_server sub, sub_topic sub) \<mapsto> 0),
           subscriptions :=
             update_subscription_message_count (sub_server sub) (sub_topic sub) 0
               (subscriptions g) \<rparr>)"

definition on_clear_click :: "ntfy_gui \<Rightarrow> ntfy_gui" where
  "on_clear_click g =
     reset_counts (subscriptions g)
       (g\<lparr> panel := clear_messages (panel g), status_bar := Cleared \<rparr>)"

text \<open>
  Worker threads never touch the window themselves: they hand a call to the GUI thread
  with \<open>wx.CallAfter\<close>, and the GUI thread runs the calls in the order they were posted.
\<close>

datatype gui_call =
  AddMessageAndNotify ntfy_message bool
  | UpdateSubscriptionStatus string string status
  | SetStatusText status_text
  | SetConnectedState bool

fun run_call :: "gui_call \<Rightarrow> ntfy_gui \<Rightarrow> ntfy_gui" where
  "run_call (AddMessageAndNotify m is_live_message) g = add_message_and_notify m is_live_message g"
| "run_call (UpdateSubscriptionStatus server_url topic_name st) g =
     g\<lparr> subscriptions := update_subscription_status server_url topic_name st (subscriptions g) \<rparr>"
| "run_call (SetStatusText txt) g = g\<lparr> status_bar := txt \<rparr>"
| "run_call (SetConnectedState c) g = g\<lparr> connected_state := c \<rparr>"

text \<open>
  What a worker thread does, in order: a call posted to the GUI thread, a line written
  to the log, one \<open>time.sleep(1)\<close>, or the removal of its own entry from
  \<open>listening_threads\<close>.
\<close>

datatype log_entry =
  ConnectingTo string
  | RequestErrorLog
  | JSONParseWarning string
  | ReconnectInfo nat
  | ReconnectError nat
  | FetchingHistory string
  | FetchFailedLog

datatype action =
  CallAfter gui_call
  | Log log_entry
  | Sleep1
  | DelListeningThread "string \<times> string"

text \<open>The GUI thread running the posted calls of a trace.\<close>

fun run_actions :: "action list \<Rightarrow> ntfy_gui \<Rightarrow> ntfy_gui" where
  "run_actions [] g = g"
| "run_actions (CallAfter c # rest) g = run_actions rest (run_call c g)"
| "run_actions (a # rest) g = run_actions rest g"

text \<open>
  The number of messages newly admitted while the GUI thread runs a trace: the calls of
  \<open>add_message_and_notify\<close> in which \<open>add_message\<close> returns True.
\<close>

fun newly_admitted :: "action list \<Rightarrow> ntfy_gui \<Rightarrow> nat" where
  "newly_admitted [] g = 0"
| "newly_admitted (CallAfter (AddMessageAndNotify m is_live_message) # rest) g =
     (if fst (add_message m (panel g)) then 1 else 0)
       + newly_admitted rest (add_message_and_notify m is_live_message g)"
| "newly_admitted (CallAfter c # rest) g = newly_admitted rest (run_call c g)"
| "newly_admitted (a # rest) g = newly_admitted rest g"


section \<open>The stream worker\<close>

text \<open>
  \<open>json.loads(line.decode('utf-8'))\<close> followed by \<open>data['server'] = server_url\<close> has
  three outcomes: \<open>json.JSONDecodeError\<close>, the only exception the line loops catch; any
  other exception (the bytes are not UTF-8, or the JSON value is not an object, so that
  the assignment fails); or a dict. The decoder itself is a library function and a
  parameter \<open>loads\<close> of the model.
\<close>

datatype decoded = JSONDecodeError | OtherError | Dict json_dict

text \<open>
  The flags \<open>stop_listening\<close> and \<open>auto_reconnect\<close> of the window are written by the
  GUI thread while a worker runs. The worker sees the value a flag has at the moment it
  reads it: \<open>stop_listening w t\<close> is what the worker's read number \<open>t\<close> of the shared
  flags returns. \<open>reconnect_delay\<close> is set once, in \<open>__init__\<close>.
\<close>

record window_flags =
  stop_listening :: "nat \<Rightarrow> bool"
  auto_reconnect :: "nat \<Rightarrow> bool"
  reconnect_delay :: nat


text \<open>
  What the network gives one connection attempt: \<open>requests.get\<close> or
  \<open>raise_for_status\<close> raises a \<open>RequestException\<close>, or the stream opens and delivers
  lines until the server closes it, until reading raises a \<open>RequestException\<close>, or for
  as long as anyone watches.
\<close>

datatype stream_end = EndOfStream | ReadError | StillOpen

datatype response = RequestFailed | Opened "string list" stream_end

text \<open>How a call of \<open>listen_subscription_messages\<close> ends, if it does.\<close>

datatype outcome = Returned | Raised | Blocked

definition prepend :: "action \<Rightarrow> action list \<times> nat \<times> outcome \<Rightarrow> action list \<times> nat \<times> outcome" where
  "prepend a r = (case r of (acts, t, out) \<Rightarrow> (a # acts, t, out))"

text \<open>
  When the lines are used up: a stream the server closed ends the \<open>for\<close> loop and the
  function returns; a read error is a \<open>RequestException\<close>, which the \<open>except\<close> clause
  logs and raises again; an open stream keeps the worker waiting.
\<close>

fun stream_end_actions :: "stream_end \<Rightarrow> action list" where
  "stream_end_actions EndOfStream = []"
| "stream_end_actions ReadError = [Log RequestErrorLog]"
| "stream_end_actions StillOpen = []"

fun stream_end_outcome :: "stream_end \<Rightarrow> outcome" where
  "stream_end_outcome EndOfStream = Returned"
| "stream_end_outcome ReadError = Raised"
| "stream_end_outcome StillOpen = Blocked"

text \<open>
  The line loop of \<open>listen_subscription_messages\<close>, with the \<open>except\<close> clause around
  it: the trace, the number of flag reads made, and the outcome.
\<close>

fun listen_lines ::
  "window_flags \<Rightarrow> (string \<Rightarrow> decoded) \<Rightarrow> string \<Rightarrow> string list \<Rightarrow> stream_end \<Rightarrow> nat \<Rightarrow>
   action list \<times> nat \<times> outcome" where
  "listen_lines w loads server_url [] fin t = (stream_end_actions fin, t, stream_end_outcome fin)"
| "listen_lines w loads server_url (line # rest) fin t =
     (if stop_listening w t then ([], t + 1, Returned)
      else if line = [] then listen_lines w loads server_url rest fin (t + 1)
      else case loads line of
             JSONDecodeError \<Rightarrow>
               prepend (Log (JSONParseWarning line))
                 (listen_lines w loads server_url rest fin (t + 1))
           | OtherError \<Rightarrow> ([], t + 1, Raised)
           | Dict data \<Rightarrow>
               prepend
                 (CallAfter (AddMessageAndNotify
                    (NtfyMessage (data\<lparr>k_server := Some server_url\<rparr>)) True))
                 (listen_lines w loads server_url rest fin (t + 1)))"

text \<open>\<open>NtfyGUI.listen_subscription_messages\<close>\<close>

definition listen_subscription_messages ::
  "window_flags \<Rightarrow> (string \<Rightarrow> decoded) \<Rightarrow> subscription \<Rightarrow> response \<Rightarrow> nat \<Rightarrow>
   action list \<times> nat \<times> outcome" where
  "listen_subscription_messages w loads sub resp t =
     prepend (Log (ConnectingTo (sub_server sub @ ''/'' @ sub_topic sub @ ''/json'')))
       (case resp of
          RequestFailed \<Rightarrow> ([Log RequestErrorLog], t, Raised)
        | Opened lines fin \<Rightarrow>
            prepend
              (CallAfter (UpdateSubscriptionStatus (sub_server sub) (sub_topic sub) Connected))
              (listen_lines w loads (sub_server sub) lines fin t))"

text \<open>
  The wait before a reconnect: \<open>for _ in range(self.reconnect_delay)\<close>, with the
  number of rounds left. The flag says whether the worker returned from inside the loop.
\<close>

fun backoff :: "window_flags \<Rightarrow> nat \<Rightarrow> nat \<Rightarrow> action list \<times> nat \<times> bool" where
  "backoff w 0 t = ([], t, False)"
| "backoff w (Suc n) t =
     (if stop_listening w t then ([], t + 1, True)
      else case backoff w n (t + 1) of (acts, t', returned) \<Rightarrow> (Sleep1 # acts, t', returned))"

text \<open>
  How the worker ends: it fell out of the \<open>while\<close> loop and ran the lines after it, or
  it returned from inside the wait.
\<close>

datatype worker_exit = LeftLoop | ReturnedInBackoff

text \<open>The lines after the \<open>while\<close> loop.\<close>

definition after_loop :: "subscription \<Rightarrow> action list" where
  "after_loop sub =
     [DelListeningThread (sub_server sub, sub_topic sub),
      CallAfter (UpdateSubscriptionStatus (sub_server sub) (sub_topic sub) Disconnected)]"

text \<open>The status and the log line of a reconnect, after a clean end and after an exception.\<close>

definition reconnect_notice :: "subscription \<Rightarrow> outcome \<Rightarrow> nat \<Rightarrow> action list" where
  "reconnect_notice sub out reconnect_attempts =
     (if out = Raised then
        [Log (ReconnectError reconnect_attempts),
         CallAfter (UpdateSubscriptionStatus (sub_server sub) (sub_topic sub)
           (ErrorReconnecting reconnect_attempts))]
      else
        [Log (ReconnectInfo reconnect_attempts),
         CallAfter (UpdateSubscriptionStatus (sub_server sub) (sub_topic sub)
           (Reconnecting reconnect_attempts))])"

text \<open>
  The \<open>while\<close> loop of \<open>listen_subscription_with_reconnect\<close>. The list holds what the
  network gives the successive connection attempts; when it is used up the next
  attempt never comes back, and neither does the worker (\<open>None\<close>). The arguments
  after it are the number of flag reads made so far and \<open>reconnect_attempts\<close>.
\<close>

fun worker_loop ::
  "window_flags \<Rightarrow> (string \<Rightarrow> decoded) \<Rightarrow> subscription \<Rightarrow> response list \<Rightarrow> nat \<Rightarrow> nat \<Rightarrow>
   action list \<times> worker_exit option" where
  "worker_loop w loads sub [] t reconnect_attempts =
     (if stop_listening w t then (after_loop sub, Some LeftLoop)
      else ([CallAfter (UpdateSubscriptionStatus (sub_server sub) (sub_topic sub) Connecting)],
            None))"
| "worker_loop w loads sub (resp # rest) t reconnect_attempts =
     (if stop_listening w t then (after_loop sub, Some LeftLoop)
      else
        case listen_subscription_messages w loads sub resp (t + 1) of
          (acts, t1, out) \<Rightarrow>
            let pre = CallAfter (UpdateSubscriptionStatus (sub_server sub) (sub_topic sub)
                        Connecting) # acts
            in if out = Blocked then (pre, None)
               else if stop_listening w t1 then (pre @ after_loop sub, Some LeftLoop)
               else if auto_reconnect w (t1 + 1) then
                 (case backoff w (reconnect_delay w) (t1 + 2) of
                    (sleeps, t2, returned) \<Rightarrow>
                      if returned then
                        (pre @ reconnect_notice sub out (reconnect_attempts + 1) @ sleeps,
                         Some ReturnedInBackoff)
                      else
                        (case worker_loop w loads sub rest t2 (reconnect_attempts + 1) of
                           (later, ex) \<Rightarrow>
                             (pre @ reconnect_notice sub out (reconnect_attempts + 1) @ sleeps
                                @ later, ex)))
               else if out = Raised then
                 (pre @ [CallAfter (UpdateSubscriptionStatus (sub_server sub) (sub_topic sub)
                           ConnectionError)] @ after_loop sub,
                  Some LeftLoop)
               else (pre @ after_loop sub, Some LeftLoop))"

text \<open>\<open>NtfyGUI.listen_subscription_with_reconnect\<close>\<close>

definition listen_subscription_with_reconnect ::
  "window_flags \<Rightarrow> (string \<Rightarrow> decoded) \<Rightarrow> subscription \<Rightarrow> response list \<Rightarrow>
   action list \<times> worker_exit option" where
  "listen_subscription_with_reconnect w loads sub resps = worker_loop w loads sub resps 0 0"

section \<open>The history fetch\<close>

text \<open>
  What \<open>requests.get\<close> with \<open>raise_for_status\<close> gives the fetch of one subscription: a
  \<open>RequestException\<close>, or the lines of the complete response.
\<close>

datatype fetch_response = FetchFailed | FetchOk "string list"

text \<open>
  The line loop of \<open>fetch_thread\<close> with the running \<open>total_messages_fetched\<close>. The
  result is \<open>None\<close> when an exception other than \<open>JSONDecodeError\<close> ends the thread.
\<close>

fun fetch_lines ::
  "(string \<Rightarrow> decoded) \<Rightarrow> string \<Rightarrow> string list \<Rightarrow> nat \<Rightarrow> action list \<times> nat option" where
  "fetch_lines loads server_url [] total_messages_fetched = ([], Some total_messages_fetched)"
| "fetch_lines loads server_url (line # rest) total_messages_fetched =
     (if line = [] then fetch_lines loads server_url rest total_messages_fetched
      else case loads line of
             JSONDecodeError \<Rightarrow>
               (case fetch_lines loads server_url rest total_messages_fetched of
                  (acts, r) \<Rightarrow> (Log (JSONParseWarning line) # acts, r))
           | OtherError \<Rightarrow> ([], None)
           | Dict data \<Rightarrow>
               (case fetch_lines loads server_url rest
                       (if event (NtfyMessage (data\<lparr>k_server := Some server_url\<rparr>)) = ''message''
                        then total_messages_fetched + 1 else total_messages_fetched) of
                  (acts, r) \<Rightarrow>
                    (CallAfter (AddMessageAndNotify
                       (NtfyMessage (data\<lparr>k_server := Some server_url\<rparr>)) False) # acts, r)))"

text \<open>
  The loop over the subscriptions, each paired with what the network gives its request.
\<close>

fun fetch_subscriptions ::
  "(string \<Rightarrow> decoded) \<Rightarrow> string \<Rightarrow> (subscription \<times> fetch_response) list \<Rightarrow> nat \<Rightarrow>
   action list \<times> nat option" where
  "fetch_subscriptions loads since [] total_messages_fetched = ([], Some total_messages_fetched)"
| "fetch_subscriptions loads since ((sub, resp) # rest) total_messages_fetched =
     (let url = sub_server sub @ ''/'' @ sub_topic sub @ ''/json?poll=1&since='' @ since in
      case resp of
        FetchFailed \<Rightarrow>
          (case fetch_subscriptions loads since rest total_messages_fetched of
             (acts, r) \<Rightarrow> (Log (FetchingHistory url) # Log FetchFailedLog # acts, r))
      | FetchOk lines \<Rightarrow>
          (case fetch_lines loads (sub_server sub) lines total_messages_fetched of
             (acts, None) \<Rightarrow> (Log (FetchingHistory url) # acts, None)
           | (acts, Some total_now) \<Rightarrow>
               (case fetch_subscriptions loads since rest total_now of
                  (later, r) \<Rightarrow> (Log (FetchingHistory url) # acts @ later, r))))"

text \<open>The thread started by \<open>NtfyGUI.fetch_history\<close>.\<close>

definition fetch_thread ::
  "(string \<Rightarrow> decoded) \<Rightarrow> string \<Rightarrow> (subscription \<times> fetch_response) list \<Rightarrow> action list" where
  "fetch_thread loads since requests =
     (case fetch_subscriptions loads since requests 0 of
        (acts, None) \<Rightarrow> acts
      | (acts, Some total_messages_fetched) \<Rightarrow>
          acts @ [CallAfter (SetStatusText (FetchDone total_messages_fetched since))])"

text \<open>
  \<open>NtfyGUI.fetch_history\<close> on the GUI thread: the status bar says the fetch is
  running; the calls of the thread arrive afterwards.
\<close>

definition fetch_history ::
  "(string \<Rightarrow> decoded) \<Rightarrow> string \<Rightarrow> (subscription \<times> fetch_response) list \<Rightarrow> ntfy_gui \<Rightarrow> ntfy_gui" where
  "fetch_history loads since requests g =
     run_actions (fetch_thread loads since requests)
       (g\<lparr> status_bar := Fetching (length requests) \<rparr>)"

section \<open>Example inputs\<close>

text \<open>
  Three lines of a stream and what the JSON decoder makes of them; every other line is
  taken to be malformed.
\<close>

definition ex_line_a1 :: string where
  \<open>ex_line_a1 = ''{"id":"a1","time":1000,"event":"message","topic":"alerts","message":"hi"}''\<close>

definition ex_line_a2 :: string where
  \<open>ex_line_a2 = ''{"id":"a2","time":1001,"event":"message","topic":"alerts","message":"bye"}''\<close>

definition ex_line_bad :: string where
  \<open>ex_line_bad = ''{"id":''\<close>

definition ex_dict_a1 :: json_dict where
  "ex_dict_a1 =
     \<lparr> k_id = Some ''a1'', k_time = Some 1000, k_event = Some ''message'',
       k_topic = Some ''alerts'', k_message = Some ''hi'', k_title = None, k_tags = None,
       k_priority = None, k_click = None, k_attachment = None, k_server = None \<rparr>"

definition ex_dict_a2 :: json_dict where
  "ex_dict_a2 =
     \<lparr> k_id = Some ''a2'', k_time = Some 1001, k_event = Some ''message'',
       k_topic = Some ''alerts'', k_message = Some ''bye'', k_title = None, k_tags = None,
       k_priority = None, k_click = None, k_attachment = None, k_server = None \<rparr>"

definition ex_loads :: "string \<Rightarrow> decoded" where
  "ex_loads line =
     (if line = ex_line_a1 then Dict ex_dict_a1
      else if line = ex_line_a2 then Dict ex_dict_a2
      else JSONDecodeError)"

text \<open>The two messages as the worker of (https://ntfy.sh, alerts) builds them.\<close>

definition ex_a1 :: ntfy_message where
  "ex_a1 = NtfyMessage (ex_dict_a1\<lparr>k_server := Some ''https://ntfy.sh''\<rparr>)"

definition ex_a2 :: ntfy_message where
  "ex_a2 = NtfyMessage (ex_dict_a2\<lparr>k_server := Some ''https://ntfy.sh''\<rparr>)"

text \<open>A third message with the time of the first.\<close>

definition ex_b1 :: ntfy_message where
  "ex_b1 = ex_a1\<lparr> id_m := ''b1'', message := ''again'' \<rparr>"

text \<open>A keepalive event, and a message event without an id.\<close>

definition ex_keepalive :: ntfy_message where
  "ex_keepalive = ex_a1\<lparr> id_m := ''k1'', event := ''keepalive'' \<rparr>"

definition ex_no_id :: ntfy_message where
  "ex_no_id = ex_a1\<lparr> id_m := [] \<rparr>"

text \<open>The panel after the first message was admitted.\<close>

definition ex_panel :: message_panel where
  "ex_panel = snd (add_message ex_a1 init_panel)"

definition ex_sub :: subscription where
  "ex_sub = \<lparr> sub_server = ''https://ntfy.sh'', sub_topic = ''alerts'',
              sub_status = NotConnected, message_count = 0 \<rparr>"

text \<open>The window with one subscription and no message, and the one that has seen a1.\<close>

definition ex_gui :: ntfy_gui where
  "ex_gui = \<lparr> panel = init_panel, subscriptions = [ex_sub], sub_message_counts = Map.empty,
              status_bar = Ready, tray = [], connected_state = False \<rparr>"

definition ex_gui_a1 :: ntfy_gui where
  "ex_gui_a1 = add_message_and_notify ex_a1 True ex_gui"



section \<open>Facts about the message panel\<close>

lemma find_insert_index_takeWhile:
  "find_insert_index t xs i i = i + length (takeWhile (\<lambda>e. t \<le> time e) xs)"
  by (induction xs arbitrary: i) auto

lemma list_insert_takeWhile:
  "list_insert (length (takeWhile P xs)) x xs = takeWhile P xs @ x # dropWhile P xs"
  by (simp add: list_insert_def takeWhile_eq_take [symmetric] dropWhile_eq_drop [symmetric])

lemma add_message_admitted:
  "fst (add_message m p) \<Longrightarrow>
     snd (add_message m p) =
       p\<lparr> message_ids := insert (id_m m) (message_ids p),
          messages := takeWhile (\<lambda>e. time m \<le> time e) (messages p) @ m #
                      dropWhile (\<lambda>e. time m \<le> time e) (messages p) \<rparr>"
  using find_insert_index_takeWhile [of "time m" "messages p" 0]
  by (auto simp: add_message_def list_insert_takeWhile split: if_splits)

lemma add_message_rejected:
  "\<not> fst (add_message m p) \<Longrightarrow> snd (add_message m p) = p"
  by (auto simp: add_message_def split: if_splits)

lemma descending_dropWhile_below:
  "descending xs \<Longrightarrow> e \<in> set (dropWhile (\<lambda>e. t \<le> time e) xs) \<Longrightarrow> time e < t"
  unfolding descending_def
  by (induction xs) (auto split: if_splits)

lemma descending_takeWhile_dropWhile:
  assumes "descending xs"
  shows "descending (takeWhile (\<lambda>e. time m \<le> time e) xs @ m # dropWhile (\<lambda>e. time m \<le> time e) xs)"
proof -
  let ?P = "\<lambda>e. time m \<le> time e"
  have whole: "sorted_wrt (\<lambda>a b. time a \<ge> time b) (takeWhile ?P xs @ dropWhile ?P xs)"
    using assms by (simp add: descending_def)
  have front: "sorted_wrt (\<lambda>a b. time a \<ge> time b) (takeWhile ?P xs)"
    and behind: "sorted_wrt (\<lambda>a b. time a \<ge> time b) (dropWhile ?P xs)"
    using whole unfolding sorted_wrt_append by blast+
  have before: "time m \<le> time e" if "e \<in> set (takeWhile ?P xs)" for e
    using that by (auto dest: set_takeWhileD)
  have after: "time e < time m" if "e \<in> set (dropWhile ?P xs)" for e
    using that assms descending_dropWhile_below by blast
  have tail: "sorted_wrt (\<lambda>a b. time a \<ge> time b) (m # dropWhile ?P xs)"
    using behind after by (auto simp: less_imp_le)
  have across: "time b \<le> time a"
    if "a \<in> set (takeWhile ?P xs)" "b \<in> set (m # dropWhile ?P xs)" for a b
    using before [OF that(1)] after [of b] that(2) by auto
  show ?thesis
    unfolding descending_def sorted_wrt_append
    using front tail across by blast
qed

lemma add_message_descending:
  "descending (messages p) \<Longrightarrow> descending (messages (snd (add_message m p)))"
  by (cases "fst (add_message m p)")
     (simp_all add: add_message_admitted add_message_rejected descending_takeWhile_dropWhile)

lemma admit_all_descending:
  "descending (messages p) \<Longrightarrow> descending (messages (admit_all ms p))"
  by (induction ms arbitrary: p) (simp_all add: add_message_descending)

lemma descending_takeWhile_filter:
  "descending xs \<Longrightarrow> takeWhile (\<lambda>e. t \<le> time e) xs = filter (\<lambda>e. t \<le> time e) xs"
  unfolding descending_def
proof (induction xs)
  case Nil
  then show ?case by simp
next
  case (Cons x xs)
  show ?case
  proof (cases "t \<le> time x")
    case True
    with Cons show ?thesis by simp
  next
    case False
    with Cons.prems have "\<forall>e \<in> set xs. \<not> t \<le> time e" by auto
    then have "filter (\<lambda>e. t \<le> time e) xs = []" by (simp add: filter_empty_conv)
    with False show ?thesis by simp
  qed
qed

lemma descending_dropWhile_filter:
  "descending xs \<Longrightarrow> dropWhile (\<lambda>e. t \<le> time e) xs = filter (\<lambda>e. time e < t) xs"
  unfolding descending_def
proof (induction xs)
  case Nil
  then show ?case by simp
next
  case (Cons x xs)
  show ?case
  proof (cases "t \<le> time x")
    case True
    with Cons show ?thesis by simp
  next
    case False
    with Cons.prems have "\<forall>e \<in> set xs. time e < t" by auto
    then have "filter (\<lambda>e. time e < t) xs = xs" by (simp add: filter_id_conv)
    with False show ?thesis by simp
  qed
qed

lemma load_loop_ids:
  "snd (load_loop ds loaded ids) = ids \<union> (\<lambda>d. dict_get (k_id d) []) ` set ds"
  by (induction ds arbitrary: loaded ids)
     (auto simp: NtfyMessage_def dict_get_def split: option.splits)

lemma load_messages_ids:
  "message_ids (load_messages ds p) = (\<lambda>d. dict_get (k_id d) []) ` set ds"
  using load_loop_ids [of ds "[]" "{}"]
  by (auto simp: load_messages_def clear_messages_def split: prod.splits)

lemma descending_sorted_reverse: "descending (sorted_reverse ms)"
proof -
  have "sorted (map (\<lambda>m. - time m) (sort_key (\<lambda>m. - time m) ms))"
    by (rule sorted_sort_key)
  then show ?thesis
    by (simp add: descending_def sorted_reverse_def sorted_map)
qed

lemma load_messages_descending: "descending (messages (load_messages ds p))"
  by (simp add: load_messages_def descending_sorted_reverse split: prod.splits)

lemma ex_a1_fields:
  "event ex_a1 = ''message''" "id_m ex_a1 = ''a1''" "topic ex_a1 = ''alerts''"
  "title ex_a1 = []" "message ex_a1 = ''hi''" "server ex_a1 = ''https://ntfy.sh''"
  "time ex_a1 = 1000"
  by (simp_all add: ex_a1_def ex_dict_a1_def NtfyMessage_def dict_get_def)

lemma ex_a2_fields:
  "event ex_a2 = ''message''" "id_m ex_a2 = ''a2''" "time ex_a2 = 1001"
  by (simp_all add: ex_a2_def ex_dict_a2_def NtfyMessage_def dict_get_def)

lemma ex_b1_fields:
  "event ex_b1 = ''message''" "id_m ex_b1 = ''b1''" "time ex_b1 = 1000"
  by (simp_all add: ex_b1_def ex_a1_fields)

lemma ex_add_a1:
  "add_message ex_a1 init_panel = (True, \<lparr> message_ids = {''a1''}, messages = [ex_a1] \<rparr>)"
  by (simp add: add_message_def ex_a1_fields init_panel_def list_insert_def)

lemma ex_panel_eq: "ex_panel = \<lparr> message_ids = {''a1''}, messages = [ex_a1] \<rparr>"
  by (simp add: ex_panel_def ex_add_a1)

lemma ex_add_b1:
  "add_message ex_b1 \<lparr> message_ids = {''a1''}, messages = [ex_a1] \<rparr> =
     (True, \<lparr> message_ids = {''b1'', ''a1''}, messages = [ex_a1, ex_b1] \<rparr>)"
  by (simp add: add_message_def ex_a1_fields ex_b1_fields list_insert_def)

lemma ex_a1_b1_differ: "ex_a1 \<noteq> ex_b1"
proof
  assume "ex_a1 = ex_b1"
  then have "id_m ex_a1 = id_m ex_b1" by simp
  then show False by (simp add: ex_a1_fields ex_b1_fields)
qed

lemma reset_counts_panel: "panel (reset_counts subs g) = panel g"
  by (induction subs arbitrary: g) simp_all

lemma on_clear_click_panel: "panel (on_clear_click g) = clear_messages (panel g)"
  by (simp add: on_clear_click_def reset_counts_panel)

section \<open>Facts about the GUI thread and the traces\<close>

lemma amn_panel:
  "panel (add_message_and_notify m live g) = snd (add_message m (panel g))"
  by (simp add: add_message_and_notify_def Let_def split: prod.splits)


lemma amn_status_bar:
  "status_bar (add_message_and_notify m live g) =
     (if fst (add_message m (panel g)) \<and> live
      then NewMessage (topic m) (title_or_message 30 m) else status_bar g)"
  by (simp add: add_message_and_notify_def Let_def split: prod.splits)








lemma ex_lines_nonempty: "ex_line_a1 \<noteq> []" "ex_line_a2 \<noteq> []" "ex_line_bad \<noteq> []"
  by (simp_all add: ex_line_a1_def ex_line_a2_def ex_line_bad_def)

lemma ex_loads_lines:
  "ex_loads ex_line_a1 = Dict ex_dict_a1" "ex_loads ex_line_a2 = Dict ex_dict_a2"
  "ex_loads ex_line_bad = JSONDecodeError"
  by (simp_all add: ex_loads_def ex_line_a1_def ex_line_a2_def ex_line_bad_def)

lemma ex_fetch_trace:
  "fetch_thread ex_loads ''10m'' [(ex_sub, FetchOk [ex_line_a1])] =
     [Log (FetchingHistory ''https://ntfy.sh/alerts/json?poll=1&since=10m''),
      CallAfter (AddMessageAndNotify ex_a1 False),
      CallAfter (SetStatusText (FetchDone 1 ''10m''))]"
  by (simp add: fetch_thread_def ex_lines_nonempty ex_loads_lines ex_a1_def ex_sub_def Let_def
      NtfyMessage_def dict_get_def ex_dict_a1_def)


lemma run_actions_append:
  "run_actions (as @ bs) g = run_actions bs (run_actions as g)"
  by (induction as g rule: run_actions.induct) auto


lemma run_call_panel_other:
  "\<forall>m live. c \<noteq> AddMessageAndNotify m live \<Longrightarrow> panel (run_call c g) = panel g"
  by (cases c) auto











lemma rstrip_slash_append:
  "rstrip_slash (xs @ ys) =
     (if \<forall>c \<in> set ys. c = CHR ''/'' then rstrip_slash xs else xs @ rstrip_slash ys)"
  by (simp add: rstrip_slash_def dropWhile_append)

lemma rstrip_slash_last:
  "rstrip_slash s \<noteq> [] \<Longrightarrow> last (rstrip_slash s) \<noteq> CHR ''/''"
  using hd_dropWhile [of "\<lambda>c. c = CHR ''/''" "rev s"]
  by (simp add: rstrip_slash_def last_rev)

lemma rstrip_slash_http:
  "rstrip_slash (''http://'' @ r) =
     (if \<forall>c \<in> set r. c = CHR ''/'' then ''http:'' else ''http://'' @ rstrip_slash r)"
proof -
  have "rstrip_slash ''http://'' = ''http:''" by (simp add: rstrip_slash_def)
  then show ?thesis using rstrip_slash_append [of "''http://''" r] by simp
qed

lemma rstrip_slash_https:
  "rstrip_slash (''https://'' @ r) =
     (if \<forall>c \<in> set r. c = CHR ''/'' then ''https:'' else ''https://'' @ rstrip_slash r)"
proof -
  have "rstrip_slash ''https://'' = ''https:''" by (simp add: rstrip_slash_def)
  then show ?thesis using rstrip_slash_append [of "''https://''" r] by simp
qed

lemma normalize_url_scheme:
  "startswith_scheme (normalize_url u) \<or> normalize_url u = ''http:'' \<or> normalize_url u = ''https:''"
proof (cases "startswith_scheme u")
  case False
  then have "normalize_url u = rstrip_slash (''https://'' @ u)"
    by (simp add: normalize_url_def)
  then show ?thesis
    unfolding rstrip_slash_https by (simp add: startswith_scheme_def)
next
  case True
  then consider r where "u = ''http://'' @ r" | r where "u = ''https://'' @ r"
    unfolding startswith_scheme_def prefix_def by blast
  then show ?thesis
  proof cases
    case 1
    with True have "normalize_url u = rstrip_slash (''http://'' @ r)"
      by (simp add: normalize_url_def)
    then show ?thesis
      unfolding rstrip_slash_http by (simp add: startswith_scheme_def)
  next
    case 2
    with True have "normalize_url u = rstrip_slash (''https://'' @ r)"
      by (simp add: normalize_url_def)
    then show ?thesis
      unfolding rstrip_slash_https by (simp add: startswith_scheme_def)
  qed
qed

lemma normalize_url_nonempty: "normalize_url u \<noteq> []"
  using normalize_url_scheme [of u] by (auto simp: startswith_scheme_def)

lemma normalize_url_last: "last (normalize_url u) \<noteq> CHR ''/''"
  using normalize_url_nonempty [of u] rstrip_slash_last
  by (simp add: normalize_url_def)

lemma list_ex_sub_key:
  "list_ex (\<lambda>s. sub_server s = a \<and> sub_topic s = b) subs \<longleftrightarrow> (a, b) \<in> set (map sub_key subs)"
  by (auto simp: list_ex_iff sub_key_def)

section \<open>Order of the history\<close>

text \<open>
  Claim C1, as amended. For every sequence of admissions the history stays in descending
  order of time, equal times allowed: from the empty panel, from a panel just loaded,
  and step by step from any panel in descending order. A newly admitted message is
  placed after every entry whose time is greater than or equal to its own and before
  every entry with a smaller time, so among equal times the earliest admitted stands
  first.
\<close>

theorem add_message_order:
  "descending (messages (admit_all ms init_panel)) \<and>
   descending (messages (admit_all ms (load_messages ds p0))) \<and>
   (descending (messages p) \<longrightarrow> descending (messages (snd (add_message m p)))) \<and>
   (descending (messages p) \<and> fst (add_message m p) \<longrightarrow>
      messages (snd (add_message m p)) =
        filter (\<lambda>e. time m \<le> time e) (messages p) @ m #
        filter (\<lambda>e. time e < time m) (messages p))"
proof -
  have "descending (messages init_panel)"
    by (simp add: init_panel_def descending_def)
  then have "descending (messages (admit_all ms init_panel))"
    by (rule admit_all_descending)
  moreover have "descending (messages (admit_all ms (load_messages ds p0)))"
    using load_messages_descending by (rule admit_all_descending)
  moreover have "descending (messages p) \<longrightarrow> descending (messages (snd (add_message m p)))"
    by (simp add: add_message_descending)
  moreover have "descending (messages p) \<and> fst (add_message m p) \<longrightarrow>
      messages (snd (add_message m p)) =
        filter (\<lambda>e. time m \<le> time e) (messages p) @ m #
        filter (\<lambda>e. time e < time m) (messages p)"
    by (simp add: add_message_admitted descending_takeWhile_filter descending_dropWhile_filter)
  ultimately show ?thesis by blast
qed

theorem add_message_order_witness:
  "descending (messages ex_panel) \<and>
   fst (add_message ex_b1 ex_panel) \<and>
   descending (messages (snd (add_message ex_b1 ex_panel))) \<and>
   messages (snd (add_message ex_b1 ex_panel)) = [ex_a1, ex_b1]"
  using add_message_order [of "[]" "[]" init_panel ex_panel ex_b1]
  by (simp add: ex_panel_eq ex_add_b1 descending_def ex_a1_fields ex_b1_fields)

text \<open>
  The claim as it was stated fails: a1 and b1 carry the same time, b1 is admitted after
  a1 and stands behind it, not before it, and the order is not strict.
\<close>

theorem add_message_ties_counterexample:
  "time ex_b1 = time ex_a1 \<and>
   messages (admit_all [ex_a1, ex_b1] init_panel) = [ex_a1, ex_b1] \<and>
   messages (admit_all [ex_a1, ex_b1] init_panel) \<noteq> [ex_b1, ex_a1] \<and>
   \<not> strictly_descending (messages (admit_all [ex_a1, ex_b1] init_panel))"
  using ex_a1_b1_differ
  by (simp add: ex_add_a1 ex_add_b1 strictly_descending_def ex_a1_fields ex_b1_fields)

section \<open>Admission\<close>

text \<open>
  Claim C2. Admission is idempotent per identifier: a message whose id is in the dedup
  index is not admitted and the panel stays as it was; admitting any message a second
  time is never an admission and changes neither the index nor the history, so the
  length of the history does not change after the first admission.
\<close>

theorem add_message_idempotent:
  "(id_m m \<in> message_ids p \<longrightarrow> add_message m p = (False, p)) \<and>
   add_message m (snd (add_message m p)) = (False, snd (add_message m p)) \<and>
   length (messages (snd (add_message m (snd (add_message m p))))) =
     length (messages (snd (add_message m p)))"
  by (simp add: add_message_def)

theorem add_message_idempotent_witness:
  "id_m ex_a1 \<in> message_ids ex_panel \<and> add_message ex_a1 ex_panel = (False, ex_panel)"
  using add_message_idempotent [of ex_a1 ex_panel]
  by (simp add: ex_panel_eq ex_a1_fields)

text \<open>
  Claim C6. A message is admitted only if its event is \<open>message\<close> and its id is not
  empty; an admission puts the id into the dedup index and the message into the
  history, which grows by one. A message that fails either condition is not admitted
  and the panel stays as it was.
\<close>

theorem add_message_eligible:
  "(fst (add_message m p) \<longrightarrow> event m = ''message'' \<and> id_m m \<noteq> []) \<and>
   (fst (add_message m p) \<longrightarrow>
      message_ids (snd (add_message m p)) = insert (id_m m) (message_ids p) \<and>
      length (messages (snd (add_message m p))) = Suc (length (messages p)) \<and>
      m \<in> set (messages (snd (add_message m p)))) \<and>
   (\<not> (event m = ''message'' \<and> id_m m \<noteq> []) \<longrightarrow> add_message m p = (False, p))"
  by (auto simp: add_message_def list_insert_def)

theorem add_message_eligible_witness:
  "fst (add_message ex_a1 init_panel) \<and> event ex_a1 = ''message'' \<and> id_m ex_a1 \<noteq> [] \<and>
   message_ids (snd (add_message ex_a1 init_panel)) = {''a1''} \<and>
   \<not> (event ex_keepalive = ''message'' \<and> id_m ex_keepalive \<noteq> []) \<and>
   add_message ex_keepalive ex_panel = (False, ex_panel) \<and>
   \<not> (event ex_no_id = ''message'' \<and> id_m ex_no_id \<noteq> []) \<and>
   add_message ex_no_id ex_panel = (False, ex_panel)"
proof -
  have admitted: "fst (add_message ex_a1 init_panel)"
    by (simp add: ex_add_a1)
  have other_event: "\<not> (event ex_keepalive = ''message'' \<and> id_m ex_keepalive \<noteq> [])"
    by (simp add: ex_keepalive_def)
  have empty_id: "\<not> (event ex_no_id = ''message'' \<and> id_m ex_no_id \<noteq> [])"
    by (simp add: ex_no_id_def)
  have ids: "insert (id_m ex_a1) (message_ids init_panel) = {''a1''}"
    by (simp add: ex_a1_fields init_panel_def)
  from add_message_eligible [of ex_a1 init_panel] admitted
  have "event ex_a1 = ''message'' \<and> id_m ex_a1 \<noteq> [] \<and>
      message_ids (snd (add_message ex_a1 init_panel)) = {''a1''}"
    unfolding ids by blast
  moreover from add_message_eligible [of ex_keepalive ex_panel] other_event
  have "add_message ex_keepalive ex_panel = (False, ex_panel)" by blast
  moreover from add_message_eligible [of ex_no_id ex_panel] empty_id
  have "add_message ex_no_id ex_panel = (False, ex_panel)" by blast
  ultimately show ?thesis using admitted other_event empty_id by blast
qed

section \<open>The dedup index\<close>

text \<open>
  Claim C7, as amended. Admission never shrinks the dedup index. Message clearing
  empties it together with the history, from the panel and from the clear button. A
  history load starts with the same clearing and leaves exactly the ids of the
  persisted entries in the index, a missing id counting as the empty string.
\<close>

theorem dedup_index_operations:
  "message_ids p \<subseteq> message_ids (snd (add_message m p)) \<and>
   message_ids (clear_messages p) = {} \<and>
   messages (clear_messages p) = [] \<and>
   message_ids (panel (on_clear_click g)) = {} \<and>
   message_ids (load_messages ds p) = (\<lambda>d. dict_get (k_id d) []) ` set ds"
  by (auto simp: add_message_def clear_messages_def load_messages_ids on_clear_click_panel)

theorem dedup_index_operations_witness:
  "message_ids ex_panel \<subseteq> message_ids (snd (add_message ex_b1 ex_panel)) \<and>
   message_ids (snd (add_message ex_b1 ex_panel)) = {''b1'', ''a1''} \<and>
   message_ids (load_messages [to_dict ex_a1, to_dict ex_b1] ex_panel) = {''a1'', ''b1''}"
  using dedup_index_operations [of ex_panel ex_b1 ex_gui "[to_dict ex_a1, to_dict ex_b1]"]
  by (simp add: ex_panel_eq ex_add_b1 to_dict_def dict_get_def ex_a1_fields ex_b1_fields)

text \<open>
  The claim as it was stated fails: clearing the messages removes a1 from the index.
\<close>

theorem dedup_index_shrinks_counterexample:
  "''a1'' \<in> message_ids ex_panel \<and> ''a1'' \<notin> message_ids (clear_messages ex_panel) \<and>
   \<not> message_ids ex_panel \<subseteq> message_ids (clear_messages ex_panel)"
  by (simp add: ex_panel_eq clear_messages_def)

section \<open>Persisting a message\<close>

text \<open>
  Claim C10. Building a message from the dict that \<open>to_dict\<close> gives for a message
  yields the same message, field by field; so does a message built from a decoded
  dict, written out and read back; and writing out the message read back gives the
  same dict again.
\<close>

theorem to_dict_roundtrip:
  "NtfyMessage (to_dict m) = m \<and>
   NtfyMessage (to_dict (NtfyMessage data)) = NtfyMessage data \<and>
   to_dict (NtfyMessage (to_dict m)) = to_dict m"
  by (simp add: NtfyMessage_def to_dict_def dict_get_def)

theorem to_dict_roundtrip_witness:
  "NtfyMessage (to_dict ex_a1) = ex_a1 \<and> k_priority (to_dict ex_a1) = Some 3"
  using to_dict_roundtrip [of ex_a1 ex_dict_a1]
  by (simp add: to_dict_def ex_a1_def NtfyMessage_def dict_get_def ex_dict_a1_def)

section \<open>Notifications\<close>



section \<open>The count of the history fetch\<close>

text \<open>
  Claim C4, at an input where the code departs from it. The window has already admitted
  a1; a history fetch whose response holds the line of a1 again admits nothing and
  leaves the history as it was, yet the completion text in the status bar reports one
  new message.
\<close>

theorem fetch_history_counts_duplicates:
  "fetch_thread ex_loads ''10m'' [(ex_sub, FetchOk [ex_line_a1])] =
     [Log (FetchingHistory ''https://ntfy.sh/alerts/json?poll=1&since=10m''),
      CallAfter (AddMessageAndNotify ex_a1 False),
      CallAfter (SetStatusText (FetchDone 1 ''10m''))] \<and>
   id_m ex_a1 \<in> message_ids (panel ex_gui_a1) \<and>
   newly_admitted (fetch_thread ex_loads ''10m'' [(ex_sub, FetchOk [ex_line_a1])]) ex_gui_a1 = 0 \<and>
   status_bar (fetch_history ex_loads ''10m'' [(ex_sub, FetchOk [ex_line_a1])] ex_gui_a1)
     = FetchDone 1 ''10m'' \<and>
   messages (panel (fetch_history ex_loads ''10m'' [(ex_sub, FetchOk [ex_line_a1])] ex_gui_a1))
     = messages (panel ex_gui_a1)"
proof -
  have p: "panel ex_gui_a1 = \<lparr> message_ids = {''a1''}, messages = [ex_a1] \<rparr>"
    by (simp add: ex_gui_a1_def amn_panel ex_gui_def ex_add_a1)
  have again: "add_message ex_a1 \<lparr> message_ids = {''a1''}, messages = [ex_a1] \<rparr> =
      (False, \<lparr> message_ids = {''a1''}, messages = [ex_a1] \<rparr>)"
    by (simp add: add_message_def ex_a1_fields)
  show ?thesis
    by (simp add: ex_fetch_trace fetch_history_def again amn_panel amn_status_bar p ex_a1_fields)
qed

section \<open>Malformed lines\<close>



section \<open>Reconnecting\<close>



section \<open>The subscription registry\<close>

text \<open>
  Claim C9. \<open>add_subscription\<close> stores the server URL normalised: prefixed with
  \<open>https://\<close> unless it starts with \<open>http://\<close> or \<open>https://\<close>, then stripped of
  trailing slashes. The stored URL is never empty, never ends in a slash, and starts
  with \<open>http://\<close> or \<open>https://\<close>, except that an input with nothing but slashes after
  the scheme is stored as the bare \<open>http:\<close> or \<open>https:\<close>. An empty server or topic,
  and a pair of normalised server and topic that the registry already holds, are
  refused and the registry stays as it was; anything else is appended as a new entry.
  So a registry without two entries of the same key stays so.
\<close>

theorem add_subscription_registry:
  "(distinct (map sub_key subs) \<longrightarrow>
      distinct (map sub_key (snd (add_subscription u tp subs)))) \<and>
   (u = [] \<or> tp = [] \<or> (normalize_url u, tp) \<in> set (map sub_key subs) \<longrightarrow>
      add_subscription u tp subs = (False, subs)) \<and>
   (\<not> (u = [] \<or> tp = [] \<or> (normalize_url u, tp) \<in> set (map sub_key subs)) \<longrightarrow>
      add_subscription u tp subs =
        (True, subs @ [\<lparr> sub_server = normalize_url u, sub_topic = tp,
                           sub_status = NotConnected, message_count = 0 \<rparr>])) \<and>
   normalize_url u = rstrip_slash (if startswith_scheme u then u else ''https://'' @ u) \<and>
   normalize_url u \<noteq> [] \<and> last (normalize_url u) \<noteq> CHR ''/'' \<and>
   (startswith_scheme (normalize_url u) \<or> normalize_url u = ''http:''
      \<or> normalize_url u = ''https:'')"
proof -
  have "distinct (map sub_key subs) \<longrightarrow>
      distinct (map sub_key (snd (add_subscription u tp subs)))"
    by (auto simp: add_subscription_def list_ex_sub_key sub_key_def)
  moreover have "u = [] \<or> tp = [] \<or> (normalize_url u, tp) \<in> set (map sub_key subs) \<longrightarrow>
      add_subscription u tp subs = (False, subs)"
    by (auto simp: add_subscription_def list_ex_sub_key)
  moreover have "\<not> (u = [] \<or> tp = [] \<or> (normalize_url u, tp) \<in> set (map sub_key subs)) \<longrightarrow>
      add_subscription u tp subs =
        (True, subs @ [\<lparr> sub_server = normalize_url u, sub_topic = tp,
                           sub_status = NotConnected, message_count = 0 \<rparr>])"
    by (auto simp: add_subscription_def list_ex_sub_key)
  moreover have "normalize_url u = rstrip_slash (if startswith_scheme u then u else ''https://'' @ u)"
    by (simp add: normalize_url_def)
  ultimately show ?thesis
    using normalize_url_nonempty normalize_url_last normalize_url_scheme by blast
qed

theorem add_subscription_registry_witness:
  "add_subscription ''ntfy.sh/'' ''alerts'' [] = (True, [ex_sub]) \<and>
   distinct (map sub_key [ex_sub]) \<and>
   (normalize_url ''https://ntfy.sh//'', ''alerts'') \<in> set (map sub_key [ex_sub]) \<and>
   add_subscription ''https://ntfy.sh//'' ''alerts'' [ex_sub] = (False, [ex_sub]) \<and>
   add_subscription [] ''alerts'' [ex_sub] = (False, [ex_sub]) \<and>
   distinct (map sub_key (snd (add_subscription ''ntfy.sh'' ''news'' [ex_sub])))"
proof -
  have n: "normalize_url ''ntfy.sh/'' = ''https://ntfy.sh''"
    "normalize_url ''https://ntfy.sh//'' = ''https://ntfy.sh''"
    by (simp_all add: normalize_url_def startswith_scheme_def rstrip_slash_def)
  have d: "distinct (map sub_key [ex_sub])" by simp
  have k: "(normalize_url ''https://ntfy.sh//'', ''alerts'') \<in> set (map sub_key [ex_sub])"
    by (simp add: n sub_key_def ex_sub_def)
  have fresh: "\<not> (''ntfy.sh/'' = [] \<or> ''alerts'' = [] \<or>
      (normalize_url ''ntfy.sh/'', ''alerts'') \<in> set (map sub_key []))"
    by simp
  note a = add_subscription_registry [of "[]" "''ntfy.sh/''" "''alerts''"]
  note b = add_subscription_registry [of "[ex_sub]" "''https://ntfy.sh//''" "''alerts''"]
  note c = add_subscription_registry [of "[ex_sub]" "[]" "''alerts''"]
  note e = add_subscription_registry [of "[ex_sub]" "''ntfy.sh''" "''news''"]
  from a fresh have "add_subscription ''ntfy.sh/'' ''alerts'' [] = (True, [ex_sub])"
    by (simp add: n ex_sub_def)
  moreover from b k have "add_subscription ''https://ntfy.sh//'' ''alerts'' [ex_sub] = (False, [ex_sub])"
    by blast
  moreover from c have "add_subscription [] ''alerts'' [ex_sub] = (False, [ex_sub])"
    by blast
  moreover from e d have "distinct (map sub_key (snd (add_subscription ''ntfy.sh'' ''news'' [ex_sub])))"
    by blast
  ultimately show ?thesis using d k by blast
qed

end
